theory Spec2Isabelle
  imports Complex_Main
begin

section \<open>MFI credit grade calculator: the aggregation and grading core of main.jsx\<close>

text \<open>
  JavaScript numbers are modelled as exact rationals: sums, products and comparisons are
  those of \<open>rat\<close>, so IEEE rounding of the double arithmetic, NaN and the infinities are
  outside the model. The rounding of doubles shows in two decisions of the code, and the
  properties below are stated so that they hold of the code at both: the test
  \<open>dimW || 1\<close> (see \<open>dimLoop\<close>) and the direction of \<open>toFixed(2)\<close> next to a tie
  (see \<open>totalPct\<close>). A JavaScript object is an association list in the enumeration order
  of its own properties (the order \<open>Object.entries\<close> yields); the keys of an object are
  pairwise distinct, which theorems that look a dimension up state as a hypothesis.
\<close>

subsection \<open>Data model\<close>

text \<open>
  An indicator \<open>{ kpi, weight, explanation }\<close>. The weight is optional: an absent weight
  is \<open>undefined\<close> in the source and \<open>Number(item.weight || 0)\<close> reads it as 0.
\<close>

record indicator =
  kpi :: string
  weight :: "rat option"
  explanation :: string

type_synonym subcategories = "(string \<times> indicator list) list"

type_synonym model = "(string \<times> subcategories) list"

type_synonym ratings = "string \<rightharpoonup> rat"

record band =
  label :: string
  min_b :: rat

text \<open>The value \<open>{ total, perDim, perDimDen }\<close> returned by \<open>computeWeighted\<close>.\<close>

record weighted =
  total :: rat
  perDim :: "string \<rightharpoonup> rat"
  perDimDen :: "string \<rightharpoonup> rat"

subsection \<open>Utilities\<close>

text \<open>\<open>const clamp = (v, min, max) => Math.max(min, Math.min(max, v))\<close>\<close>

definition clamp :: "rat \<Rightarrow> rat \<Rightarrow> rat \<Rightarrow> rat" where
  "clamp v mn mx = max mn (min mx v)"

text \<open>\<open>`${dim}::${item.kpi}`\<close>\<close>

definition makeKey :: "string \<Rightarrow> indicator \<Rightarrow> string" where
  "makeKey dimn item = dimn @ ''::'' @ kpi item"

text \<open>\<open>Number(scores[key] ?? 0)\<close>: an absent entry reads as 0.\<close>

definition rating :: "ratings \<Rightarrow> string \<Rightarrow> rat" where
  "rating scores key = (case scores key of None \<Rightarrow> 0 | Some v \<Rightarrow> v)"

text \<open>\<open>Number(item.weight || 0)\<close>: an absent or zero weight gives 0.\<close>

definition weightOf :: "indicator \<Rightarrow> rat" where
  "weightOf item = (case weight item of None \<Rightarrow> 0 | Some w \<Rightarrow> if w = 0 then 0 else w)"

subsection \<open>computeWeighted\<close>

text \<open>
  The innermost \<open>arr.forEach\<close>: the loop state is the triple of the variables it
  assigns, \<open>(dimSum, dimW, total)\<close>.
\<close>

fun itemLoop :: "string \<Rightarrow> ratings \<Rightarrow> indicator list \<Rightarrow> rat \<times> rat \<times> rat \<Rightarrow> rat \<times> rat \<times> rat" where
  "itemLoop dimn scores [] acc = acc"
| "itemLoop dimn scores (item # arr) (dimSum, dimW, tot) =
     (let key = makeKey dimn item;
          s = clamp (rating scores key) 0 5;
          w = weightOf item
      in itemLoop dimn scores arr (dimSum + w * (s / 5), dimW + w, tot + w * (s / 5)))"

text \<open>\<open>Object.values(subs).forEach\<close>: the subcategory names are dropped.\<close>

fun subLoop :: "string \<Rightarrow> ratings \<Rightarrow> subcategories \<Rightarrow> rat \<times> rat \<times> rat \<Rightarrow> rat \<times> rat \<times> rat" where
  "subLoop dimn scores [] acc = acc"
| "subLoop dimn scores ((sub, arr) # subs) acc = subLoop dimn scores subs (itemLoop dimn scores arr acc)"

text \<open>
  \<open>Object.entries(model).forEach\<close>: each dimension starts \<open>dimSum\<close> and \<open>dimW\<close> at 0,
  keeps adding to \<open>total\<close>, and then stores \<open>perDim[dim] = dimSum\<close> and
  \<open>perDimDen[dim] = dimW || 1\<close>. The code tests the double sum. When no weight is
  negative the double sum is 0 exactly when every weight is 0, as the exact sum is, and
  the test below is the code's. With weights of both signs a double sum can keep a
  residue where the exact sum is 0 (0.1 + 0.2 - 0.3 is 5.55e-17, which the code keeps as
  the denominator): what is proved about the value of a zero-weight denominator assumes
  that no weight is negative, the invariant of the data model.
\<close>

fun dimLoop :: "ratings \<Rightarrow> model \<Rightarrow> weighted \<Rightarrow> weighted" where
  "dimLoop scores [] r = r"
| "dimLoop scores ((dimn, subs) # rest) r =
     (case subLoop dimn scores subs (0, 0, total r) of
        (dimSum, dimW, tot) \<Rightarrow>
          dimLoop scores rest
            \<lparr> total = tot,
              perDim = (perDim r)(dimn \<mapsto> dimSum),
              perDimDen = (perDimDen r)(dimn \<mapsto> (if dimW = 0 then 1 else dimW)) \<rparr>)"

definition computeWeighted :: "model \<Rightarrow> ratings \<Rightarrow> weighted" where
  "computeWeighted m scores =
     dimLoop scores m \<lparr> total = 0, perDim = Map.empty, perDimDen = Map.empty \<rparr>"

subsection \<open>gradeFromScore\<close>

text \<open>The \<open>for (const b of bands)\<close> loop: \<open>Some\<close> is the early \<open>return b.label\<close>.\<close>

fun bandLoop :: "rat \<Rightarrow> band list \<Rightarrow> string option" where
  "bandLoop pct [] = None"
| "bandLoop pct (b # bs) = (if pct \<ge> min_b b then Some (label b) else bandLoop pct bs)"

text \<open>
  After the loop, \<open>bands[bands.length - 1]?.label ?? "N/A"\<close>: the last band's label, or
  the sentinel when there is no last band.
\<close>

definition gradeFromScore :: "rat \<Rightarrow> band list \<Rightarrow> string" where
  "gradeFromScore pct bands =
     (case bandLoop pct bands of
        Some l \<Rightarrow> l
      | None \<Rightarrow> (case bands of [] \<Rightarrow> ''N/A'' | _ # _ \<Rightarrow> label (last bands)))"

text \<open>The initial value of the \<open>bands\<close> state.\<close>

definition default_bands :: "band list" where
  "default_bands =
     [\<lparr>label = ''A'', min_b = 85\<rparr>, \<lparr>label = ''B'', min_b = 70\<rparr>, \<lparr>label = ''C'', min_b = 55\<rparr>,
      \<lparr>label = ''D'', min_b = 40\<rparr>, \<lparr>label = ''E'', min_b = 0\<rparr>]"

subsection \<open>The App component: state, derived values, handlers\<close>

text \<open>
  A parsed JSON document. An object is the list of its properties in enumeration order.
  The \<open>config\<close> state holds such a document: \<open>setConfig(json)\<close> stores whatever
  \<open>JSON.parse\<close> returned.
\<close>

datatype json =
    JNull
  | JBool bool
  | JNum rat
  | JStr string
  | JArr "json list"
  | JObj "(string \<times> json) list"

text \<open>
  JavaScript truthiness of a JSON value, as \<open>!json.model\<close> tests it: \<open>null\<close>,
  \<open>false\<close>, \<open>0\<close> and the empty string are falsy, every array and object is truthy.
\<close>

fun truthy :: "json \<Rightarrow> bool" where
  "truthy JNull = False"
| "truthy (JBool b) = b"
| "truthy (JNum n) = (n \<noteq> 0)"
| "truthy (JStr s) = (s \<noteq> [])"
| "truthy (JArr xs) = True"
| "truthy (JObj fs) = True"

text \<open>
  Reading a document the way \<open>computeWeighted\<close> and the JSX traverse \<open>config.model\<close>:
  an object of dimensions, each an object of subcategories, each an array of indicator
  objects. An absent \<open>kpi\<close> is \<open>undefined\<close> and the template literal of \<open>makeKey\<close>
  prints it so; an absent or \<open>null\<close> weight is read as 0 by \<open>item.weight || 0\<close>.
  Documents of any other shape make the traversal throw or go through string and number
  coercions that are not modelled: for them the result is \<open>None\<close>.
\<close>

definition decode_item :: "json \<Rightarrow> indicator option" where
  "decode_item j =
     (case j of
        JObj fs \<Rightarrow>
          (case (case map_of fs ''kpi'' of None \<Rightarrow> Some ''undefined'' | Some (JStr k) \<Rightarrow> Some k | Some _ \<Rightarrow> None) of
             None \<Rightarrow> None
           | Some k \<Rightarrow>
              (case (case map_of fs ''weight'' of
                       None \<Rightarrow> Some None | Some JNull \<Rightarrow> Some None
                     | Some (JNum w) \<Rightarrow> Some (Some w) | Some _ \<Rightarrow> None) of
                 None \<Rightarrow> None
               | Some w \<Rightarrow>
                  (case (case map_of fs ''explanation'' of
                           None \<Rightarrow> Some [] | Some (JStr e) \<Rightarrow> Some e | Some _ \<Rightarrow> None) of
                     None \<Rightarrow> None
                   | Some e \<Rightarrow> Some \<lparr>kpi = k, weight = w, explanation = e\<rparr>)))
      | _ \<Rightarrow> None)"

definition decode_items :: "json \<Rightarrow> indicator list option" where
  "decode_items j = (case j of JArr xs \<Rightarrow> those (map decode_item xs) | _ \<Rightarrow> None)"

definition decode_subs :: "json \<Rightarrow> subcategories option" where
  "decode_subs j =
     (case j of
        JObj fs \<Rightarrow> those (map (\<lambda>(sub, arr). map_option (Pair sub) (decode_items arr)) fs)
      | _ \<Rightarrow> None)"

definition decode_model :: "json \<Rightarrow> model option" where
  "decode_model j =
     (case j of
        JObj fs \<Rightarrow> those (map (\<lambda>(dimn, subs). map_option (Pair dimn) (decode_subs subs)) fs)
      | _ \<Rightarrow> None)"

text \<open>\<open>config.model\<close>\<close>

definition model_of_config :: "json \<Rightarrow> model option" where
  "model_of_config c =
     (case c of
        JObj fs \<Rightarrow> (case map_of fs ''model'' of None \<Rightarrow> None | Some m \<Rightarrow> decode_model m)
      | _ \<Rightarrow> None)"

text \<open>One indicator object of \<open>DEFAULT_CONFIG\<close>.\<close>

definition ind :: "string \<Rightarrow> rat \<Rightarrow> string \<Rightarrow> json" where
  "ind k w e = JObj [(''kpi'', JStr k), (''weight'', JNum w), (''explanation'', JStr e)]"

definition DEFAULT_CONFIG :: json where
  "DEFAULT_CONFIG =
     JObj
      [(''meta'', JObj [(''total_weight'', JNum 1)]),
       (''model'', JObj
         [(''Financial Performance'', JObj
            [(''Credit Risk'', JArr
               [ind ''PAR > 30 Days'' 0.05 ''Portfolio overdue >30 days; early delinquency risk indicator.'',
                ind ''Write-off Ratio'' 0.03 ''Write-offs / avg. portfolio; loss realization and discipline.'']),
             (''Market Position'', JArr
               [ind ''Client Outreach Growth'' 0.02 ''YoY growth in borrowers/AUM; franchise momentum.'',
                ind ''Market Share'' 0.03 ''Share of industry GLP; competitive strength and scale.'']),
             (''Profitability & Sustainability'', JArr
               [ind ''RoA'' 0.04 ''Net profit / avg. assets; profitability per rupee of assets.'',
                ind ''RoE'' 0.05 ''Net profit / avg. equity; shareholder return; growth buffers.'',
                ind ''OSS'' 0.06 ''Operating revenue / operating costs; >=110% indicates self-sufficiency.''])]),
          (''Refinancing & Liquidity'', JObj
            [(''Reputation'', JArr
               [ind ''Credit Rating History'' 0.03 ''External view of credit strength; impacts funding access/cost.'']),
             (''Diversification'', JArr
               [ind ''Borrowing Source Mix'' 0.03 ''Diversity/tenor of liabilities; lowers refinancing/liquidity risk.'']),
             (''Liquidity Management'', JArr
               [ind ''Liquidity Coverage Ratio'' 0.04 ''High-quality liquid assets vs. 30-day net outflows; resilience.''])]),
          (''Governance & Management'', JObj
            [(''Board Effectiveness'', JArr
               [ind ''Board Diversity'' 0.01 ''Balanced board composition improves oversight and trust.'',
                ind ''Meeting Frequency'' 0.01 ''Regular board/committee cadence supports governance effectiveness.'']),
             (''Management Experience'', JArr
               [ind ''Years in Microfinance'' 0.02 ''Institutional experience; process maturity and credit culture.'',
                ind ''Crisis Management'' 0.01 ''Response to shocks; playbooks, decision speed, stakeholder comms.'']),
             (''Internal Controls'', JArr
               [ind ''Audit Compliance'' 0.02 ''Internal/Statutory audit findings, closure rates, repeat issues.''])])])]"

text \<open>The \<open>useState\<close> cells of \<open>App\<close>.\<close>

record app_state =
  config :: json
  scores :: ratings
  bands :: "band list"
  showSettings :: bool

definition init_state :: app_state where
  "init_state = \<lparr>config = DEFAULT_CONFIG, scores = Map.empty, bands = default_bands, showSettings = False\<rparr>"

text \<open>
  \<open>Number(x.toFixed(2))\<close>: \<open>toFixed\<close> takes the sign off, leaves a magnitude of
  \<open>10^21\<close> or more as it is, and otherwise picks the integer \<open>n\<close> with \<open>n / 100\<close>
  closest to the magnitude, the larger one at a tie.
\<close>

definition toFixed2 :: "rat \<Rightarrow> rat" where
  "toFixed2 x =
     (if \<bar>x\<bar> \<ge> 10 ^ 21 then x
      else sgn x * (of_int \<lfloor>\<bar>x\<bar> * 100 + 1 / 2\<rfloor> / 100))"

text \<open>
  The callback of \<open>totalPct\<close>: \<open>clamp(Number((total * 100).toFixed(2)), 0, 100)\<close>.
  The product and the rounding are exact here. In the code the product is a double, and
  a double next to a tie \<open>x.xx5\<close> can lie on its other side: a total of 0.01005 gives
  1.00499999999999989 and so 1.00, where the exact product 1.005 rounds to 1.01. What is
  proved about the value of \<open>totalPct\<close> therefore leaves the direction open within
  0.001 of a tie.
\<close>

definition totalPct :: "rat \<Rightarrow> rat" where
  "totalPct tot = clamp (toFixed2 (tot * 100)) 0 100"

text \<open>
  One entry of \<open>radarData\<close>: \<open>clamp((perDim[dim] / (perDimDen[dim] || 1)) * 100, 0, 100)\<close>,
  on the two maps that the render destructured from the result of \<open>computeWeighted\<close>.
  A dimension absent from \<open>perDim\<close> would give NaN: that is \<open>None\<close>.
\<close>

definition radarScore :: "(string \<rightharpoonup> rat) \<Rightarrow> (string \<rightharpoonup> rat) \<Rightarrow> string \<Rightarrow> rat option" where
  "radarScore pDim pDen dimn =
     (case pDim dimn of
        None \<Rightarrow> None
      | Some p \<Rightarrow>
          Some (clamp ((p / (case pDen dimn of None \<Rightarrow> 1 | Some den \<Rightarrow> if den = 0 then 1 else den)) * 100) 0 100))"

text \<open>\<open>Object.keys(config.model).map((dim) => ({ dimension: dim, score: ... }))\<close>\<close>

definition radarData :: "model \<Rightarrow> (string \<rightharpoonup> rat) \<Rightarrow> (string \<rightharpoonup> rat) \<Rightarrow> (string \<times> rat option) list" where
  "radarData m pDim pDen = map (\<lambda>dimn. (dimn, radarScore pDim pDen dimn)) (map fst m)"

text \<open>
  \<open>useMemo(callback, deps)\<close>: a cell keeps the dependencies and the value of the last
  render, and the callback runs again only when the dependencies differ. React compares
  dependencies with \<open>Object.is\<close>; the handlers never mutate an object in place, so an
  unchanged reference is an unchanged value, and the cells compare values.
\<close>

definition useMemo :: "('d \<times> 'v) option \<Rightarrow> 'd \<Rightarrow> 'v \<Rightarrow> 'd \<times> 'v" where
  "useMemo cell deps v =
     (case cell of
        None \<Rightarrow> (deps, v)
      | Some (d, c) \<Rightarrow> if d = deps then (d, c) else (deps, v))"

record hooks =
  memo_weighted :: "(json \<times> ratings) \<times> weighted"
  memo_totalPct :: "rat \<times> rat"
  memo_finalGrade :: "(rat \<times> band list) \<times> string"
  memo_radarData :: "(json \<times> (string \<rightharpoonup> rat) \<times> (string \<rightharpoonup> rat)) \<times> (string \<times> rat option) list"

text \<open>
  One render of \<open>App\<close>: the four \<open>useMemo\<close> calls in source order, on the cells of the
  previous render (\<open>None\<close> on the first). A config whose model cannot be traversed makes
  the render throw: \<open>None\<close>.
\<close>

definition render :: "app_state \<Rightarrow> hooks option \<Rightarrow> hooks option" where
  "render st prev =
     (case model_of_config (config st) of
        None \<Rightarrow> None
      | Some m \<Rightarrow>
          (let w = useMemo (map_option memo_weighted prev) (config st, scores st)
                     (computeWeighted m (scores st));
               tp = useMemo (map_option memo_totalPct prev) (total (snd w)) (totalPct (total (snd w)));
               fg = useMemo (map_option memo_finalGrade prev) (snd tp, bands st)
                      (gradeFromScore (snd tp) (bands st));
               rd = useMemo (map_option memo_radarData prev)
                      (config st, perDim (snd w), perDimDen (snd w))
                      (radarData m (perDim (snd w)) (perDimDen (snd w)))
           in Some \<lparr>memo_weighted = w, memo_totalPct = tp, memo_finalGrade = fg, memo_radarData = rd\<rparr>))"

text \<open>
  A session: the component renders once for each state it goes through, each render on
  the cells of the one before. A render that throws ends the session.
\<close>

fun renders :: "hooks option \<Rightarrow> app_state list \<Rightarrow> hooks option" where
  "renders prev [] = prev"
| "renders prev (st # sts) =
     (case render st prev of None \<Rightarrow> None | Some h \<Rightarrow> renders (Some h) sts)"

text \<open>\<open>setScores((s) => ({ ...s, [key]: clamp(val, 0, 5) }))\<close>\<close>

definition handleScore :: "string \<Rightarrow> rat \<Rightarrow> app_state \<Rightarrow> app_state" where
  "handleScore key val st = st\<lparr>scores := (scores st)(key \<mapsto> clamp val 0 5)\<rparr>"

text \<open>
  What \<open>handleUpload\<close> reports through \<open>alert\<close>: the message of the exception it caught.
  \<open>ReadFailed\<close> is a rejected \<open>file.text()\<close>, \<open>ParseFailed\<close> the SyntaxError of
  \<open>JSON.parse\<close>, \<open>NullDocument\<close> the TypeError of reading \<open>.model\<close> of \<open>null\<close>,
  \<open>MissingModel\<close> the thrown \<open>Invalid config: missing 'model'\<close>.
\<close>

datatype upload_error =
    ReadFailed string
  | ParseFailed string
  | NullDocument
  | MissingModel

text \<open>
  \<open>handleUpload\<close>. The event carries \<open>evt.target.files?.[0]\<close>, absent when no file was
  chosen; a file is the outcome of \<open>file.text()\<close>, its text or the reason of the
  rejection. \<open>JSON.parse\<close> is a parameter. The result is the state after the handler and
  the alert it raised, if any. Reading \<open>.model\<close> throws on \<open>null\<close>, gives the last
  property of that name on an object and \<open>undefined\<close> on every other value.
\<close>

definition handleUpload ::
  "(string \<Rightarrow> string + json) \<Rightarrow> (string + string) option \<Rightarrow> app_state \<Rightarrow> app_state \<times> upload_error option" where
  "handleUpload parse evt st =
     (case evt of
        None \<Rightarrow> (st, None)
      | Some file \<Rightarrow>
          (case file of
             Inl e \<Rightarrow> (st, Some (ReadFailed e))
           | Inr txt \<Rightarrow>
               (case parse txt of
                  Inl e \<Rightarrow> (st, Some (ParseFailed e))
                | Inr doc \<Rightarrow>
                    (case doc of
                       JNull \<Rightarrow> (st, Some NullDocument)
                     | JObj fs \<Rightarrow>
                         (case map_of fs ''model'' of
                            None \<Rightarrow> (st, Some MissingModel)
                          | Some m \<Rightarrow>
                              if \<not> truthy m then (st, Some MissingModel)
                              else (st\<lparr>config := doc, scores := Map.empty\<rparr>, None))
                     | _ \<Rightarrow> (st, Some MissingModel)))))"

text \<open>
  The object that \<open>handleDownloadScores\<close> serialises: \<open>{ scores, totalPct, finalGrade }\<close>,
  with the values of the current render.
\<close>

record snapshot =
  scores_x :: ratings
  totalPct_x :: rat
  finalGrade_x :: string

definition handleDownloadScores :: "app_state \<Rightarrow> hooks \<Rightarrow> app_state \<times> snapshot" where
  "handleDownloadScores st h =
     (st, \<lparr>scores_x = scores st, totalPct_x = snd (memo_totalPct h), finalGrade_x = snd (memo_finalGrade h)\<rparr>)"

subsection \<open>Vocabulary of the properties\<close>

text \<open>
  What one indicator adds to the sums: its weight times its clamped rating over 5, the
  rating read at the key of its dimension and its \<open>kpi\<close>.
\<close>

definition contribution :: "ratings \<Rightarrow> string \<Rightarrow> indicator \<Rightarrow> rat" where
  "contribution rs dimn item = weightOf item * (clamp (rating rs (makeKey dimn item)) 0 5 / 5)"

text \<open>The indicators of a dimension, over all its subcategories, in traversal order.\<close>

definition items_of :: "subcategories \<Rightarrow> indicator list" where
  "items_of subs = concat (map snd subs)"

text \<open>Every indicator of a config, paired with the name of its dimension.\<close>

definition indicators :: "model \<Rightarrow> (string \<times> indicator) list" where
  "indicators m = concat (map (\<lambda>(dimn, subs). map (Pair dimn) (items_of subs)) m)"

text \<open>The sum of all weights in a config.\<close>

definition weightSum :: "model \<Rightarrow> rat" where
  "weightSum m = (\<Sum>(dimn, item)\<leftarrow>indicators m. weightOf item)"

text \<open>
  A memo cell is consistent when its value is what its callback gives on its
  dependencies. The first render fills every cell so.
\<close>

definition consistent :: "hooks \<Rightarrow> bool" where
  "consistent h \<longleftrightarrow>
     (case memo_weighted h of
        ((c, rs), w) \<Rightarrow> (case model_of_config c of None \<Rightarrow> False | Some m \<Rightarrow> w = computeWeighted m rs))
   \<and> (case memo_totalPct h of (t, p) \<Rightarrow> p = totalPct t)
   \<and> (case memo_finalGrade h of ((p, bs), g) \<Rightarrow> g = gradeFromScore p bs)
   \<and> (case memo_radarData h of
        ((c, pDim, pDen), rd) \<Rightarrow>
           (case model_of_config c of None \<Rightarrow> False | Some m \<Rightarrow> rd = radarData m pDim pDen))"

text \<open>A document without a \<open>model\<close> property: any value but an object that has one.\<close>

definition lacks_model :: "json \<Rightarrow> bool" where
  "lacks_model doc = (case doc of JObj fs \<Rightarrow> map_of fs ''model'' = None | _ \<Rightarrow> True)"

text \<open>A document that passes the check of \<open>handleUpload\<close>: an object whose \<open>model\<close> is truthy.\<close>

definition passes_check :: "json \<Rightarrow> bool" where
  "passes_check doc =
     (case doc of
        JObj fs \<Rightarrow> (case map_of fs ''model'' of None \<Rightarrow> False | Some m \<Rightarrow> truthy m)
      | _ \<Rightarrow> False)"

subsection \<open>Small inputs for the instances\<close>

definition mk_item :: "string \<Rightarrow> rat \<Rightarrow> indicator" where
  "mk_item k w = \<lparr>kpi = k, weight = Some w, explanation = []\<rparr>"

text \<open>Two dimensions; in the first, two subcategories hold an indicator named \<open>Growth\<close>.\<close>

definition small_model :: model where
  "small_model =
     [(''Finance'', [(''Credit'', [mk_item ''PAR'' 0.05, mk_item ''Growth'' 0.03]),
                     (''Market'', [mk_item ''Growth'' 0.02])]),
      (''Governance'', [(''Board'', [mk_item ''Diversity'' 0.01])])]"

definition small_config :: json where
  "small_config =
     JObj [(''model'', JObj
       [(''Finance'', JObj
          [(''Credit'', JArr [ind ''PAR'' 0.05 [], ind ''Growth'' 0.03 []]),
           (''Market'', JArr [ind ''Growth'' 0.02 []])]),
        (''Governance'', JObj [(''Board'', JArr [ind ''Diversity'' 0.01 []])])])]"

text \<open>A dimension whose weights are all zero, beside one that has weight.\<close>

definition zero_model :: model where
  "zero_model =
     [(''Idle'', [(''Unused'', [mk_item ''a'' 0, mk_item ''b'' 0])]),
      (''Governance'', [(''Board'', [mk_item ''Diversity'' 0.01])])]"

text \<open>
  A parse function for the instances: it knows the text of the empty object and one text
  that stands for the document \<open>small_config\<close>; any other text is a syntax error.
\<close>

definition parse_stub :: "string \<Rightarrow> string + json" where
  "parse_stub txt =
     (if txt = ''{}'' then Inr (JObj [])
      else if txt = ''small'' then Inr small_config
      else Inl ''Unexpected token'')"

text \<open>A session on \<open>small_config\<close>, before and after one rating (the 7 is stored as 5).\<close>

definition small_state :: app_state where
  "small_state = \<lparr>config = small_config, scores = Map.empty, bands = default_bands, showSettings = False\<rparr>"

definition rated_state :: app_state where
  "rated_state = handleScore ''Finance::Growth'' 7 small_state"

text \<open>A session on the default config after one rating.\<close>

definition default_rated :: app_state where
  "default_rated = handleScore ''Financial Performance::RoA'' 4 init_state"

section \<open>Properties of gradeFromScore\<close>

lemma bandLoop_first_match:
  "\<forall>b' \<in> set pre. \<not> min_b b' \<le> pct \<Longrightarrow> min_b b \<le> pct
   \<Longrightarrow> bandLoop pct (pre @ b # post) = Some (label b)"
  by (induction pre) auto

lemma bandLoop_no_match: "\<forall>b \<in> set bs. \<not> min_b b \<le> pct \<Longrightarrow> bandLoop pct bs = None"
  by (induction bs) auto

text \<open>
  C4. The bands are scanned in the order given and the label of the first band whose
  \<open>min\<close> is at most the percentage is returned: whenever the list splits into bands that
  do not match, a band that matches, and any rest, the result is that band's label. On the
  bands A 85, B 70, C 55, D 40, E 0 the scores 85, 84.9, 0 and 100 give A, B, E and A.
\<close>

theorem gradeFromScore_first_match:
  "((\<forall>b' \<in> set pre. \<not> min_b b' \<le> pct) \<and> min_b b \<le> pct
      \<longrightarrow> gradeFromScore pct (pre @ b # post) = label b)
   \<and> gradeFromScore 85 default_bands = ''A''
   \<and> gradeFromScore (849 / 10) default_bands = ''B''
   \<and> gradeFromScore 0 default_bands = ''E''
   \<and> gradeFromScore 100 default_bands = ''A''"
  by (simp add: gradeFromScore_def bandLoop_first_match default_bands_def)

theorem gradeFromScore_first_match_witness:
  "\<not> min_b \<lparr>label = ''A'', min_b = 85\<rparr> \<le> 72 \<and> min_b \<lparr>label = ''B'', min_b = 70\<rparr> \<le> 72
   \<and> gradeFromScore 72 ([\<lparr>label = ''A'', min_b = 85\<rparr>] @ \<lparr>label = ''B'', min_b = 70\<rparr> # [\<lparr>label = ''C'', min_b = 55\<rparr>]) = ''B''"
  using gradeFromScore_first_match
    [of "[\<lparr>label = ''A'', min_b = 85\<rparr>]" 72 "\<lparr>label = ''B'', min_b = 70\<rparr>" "[\<lparr>label = ''C'', min_b = 55\<rparr>]"]
  by simp

text \<open>
  C9. When the band list is not empty and no band's \<open>min\<close> is at most the percentage, the
  result is the last band's label; on the empty band list it is the sentinel \<open>N/A\<close>.
\<close>

theorem gradeFromScore_fallback:
  "(bs \<noteq> [] \<and> (\<forall>b \<in> set bs. \<not> min_b b \<le> pct)
      \<longrightarrow> gradeFromScore pct bs = label (last bs))
   \<and> gradeFromScore pct [] = ''N/A''"
  by (cases bs) (simp_all add: gradeFromScore_def bandLoop_no_match)

theorem gradeFromScore_fallback_witness:
  "\<not> min_b \<lparr>label = ''A'', min_b = 85\<rparr> \<le> 50 \<and> \<not> min_b \<lparr>label = ''B'', min_b = 70\<rparr> \<le> 50
   \<and> gradeFromScore 50 [\<lparr>label = ''A'', min_b = 85\<rparr>, \<lparr>label = ''B'', min_b = 70\<rparr>] = ''B''
   \<and> gradeFromScore 50 [] = ''N/A''"
  using gradeFromScore_fallback [of "[\<lparr>label = ''A'', min_b = 85\<rparr>, \<lparr>label = ''B'', min_b = 70\<rparr>]" 50]
  by simp

section \<open>The sums that computeWeighted accumulates\<close>

lemma itemLoop_sums:
  "itemLoop dimn rs arr (a, b, c) =
     (a + (\<Sum>item\<leftarrow>arr. contribution rs dimn item),
      b + (\<Sum>item\<leftarrow>arr. weightOf item),
      c + (\<Sum>item\<leftarrow>arr. contribution rs dimn item))"
  by (induction arr arbitrary: a b c) (simp_all add: Let_def contribution_def algebra_simps)

lemma subLoop_sums:
  "subLoop dimn rs subs (a, b, c) =
     (a + (\<Sum>item\<leftarrow>items_of subs. contribution rs dimn item),
      b + (\<Sum>item\<leftarrow>items_of subs. weightOf item),
      c + (\<Sum>item\<leftarrow>items_of subs. contribution rs dimn item))"
proof (induction subs arbitrary: a b c)
  case Nil
  show ?case by (simp add: items_of_def)
next
  case (Cons p subs)
  obtain sub arr where p: "p = (sub, arr)" by (cases p)
  show ?case
    using Cons.IH by (simp add: p itemLoop_sums items_of_def algebra_simps)
qed

lemma dimLoop_total:
  "total (dimLoop rs m r) = total r + (\<Sum>(dimn, item)\<leftarrow>indicators m. contribution rs dimn item)"
proof (induction m arbitrary: r)
  case Nil
  show ?case by (simp add: indicators_def)
next
  case (Cons p m)
  obtain dimn subs where p: "p = (dimn, subs)" by (cases p)
  show ?case
    by (simp add: p subLoop_sums Cons.IH indicators_def comp_def algebra_simps)
qed

lemma dimLoop_absent:
  "d \<notin> fst ` set m \<Longrightarrow>
     perDim (dimLoop rs m r) d = perDim r d \<and> perDimDen (dimLoop rs m r) d = perDimDen r d"
proof (induction m arbitrary: r)
  case Nil
  show ?case by simp
next
  case (Cons p m)
  obtain dimn subs where p: "p = (dimn, subs)" by (cases p)
  from Cons.prems have "d \<noteq> dimn" "d \<notin> fst ` set m" by (auto simp: p)
  then show ?case by (simp add: p subLoop_sums Cons.IH)
qed

lemma dimLoop_present:
  "distinct (map fst m) \<Longrightarrow> (d, subs) \<in> set m \<Longrightarrow>
     perDim (dimLoop rs m r) d = Some (\<Sum>item\<leftarrow>items_of subs. contribution rs d item) \<and>
     perDimDen (dimLoop rs m r) d =
       Some (if (\<Sum>item\<leftarrow>items_of subs. weightOf item) = 0 then 1
             else (\<Sum>item\<leftarrow>items_of subs. weightOf item))"
proof (induction m arbitrary: r)
  case Nil
  then show ?case by simp
next
  case (Cons p m)
  obtain dimn subs' where p: "p = (dimn, subs')" by (cases p)
  show ?case
  proof (cases "(d, subs) \<in> set m")
    case True
    with Cons.prems Cons.IH show ?thesis by (simp add: p subLoop_sums)
  next
    case False
    with Cons.prems have eq: "dimn = d" "subs' = subs" and notin: "d \<notin> fst ` set m"
      by (auto simp: p)
    show ?thesis by (simp add: p eq subLoop_sums dimLoop_absent [OF notin])
  qed
qed

lemma computeWeighted_total:
  "total (computeWeighted m rs) = (\<Sum>(dimn, item)\<leftarrow>indicators m. contribution rs dimn item)"
  by (simp add: computeWeighted_def dimLoop_total)

lemma computeWeighted_perDim:
  "distinct (map fst m) \<Longrightarrow> (d, subs) \<in> set m \<Longrightarrow>
     perDim (computeWeighted m rs) d = Some (\<Sum>item\<leftarrow>items_of subs. contribution rs d item)"
  by (simp add: computeWeighted_def dimLoop_present)

lemma computeWeighted_perDimDen:
  "distinct (map fst m) \<Longrightarrow> (d, subs) \<in> set m \<Longrightarrow>
     perDimDen (computeWeighted m rs) d =
       Some (if (\<Sum>item\<leftarrow>items_of subs. weightOf item) = 0 then 1
             else (\<Sum>item\<leftarrow>items_of subs. weightOf item))"
  by (simp add: computeWeighted_def dimLoop_present)

text \<open>The result depends on a ratings map only through the contributions it gives.\<close>

lemma contribution_agree:
  "clamp (rating rs1 (makeKey dimn item)) 0 5 = clamp (rating rs2 (makeKey dimn item)) 0 5
   \<Longrightarrow> contribution rs1 dimn item = contribution rs2 dimn item"
  by (simp add: contribution_def)

lemma subLoop_agree:
  assumes "\<forall>item \<in> set (items_of subs). contribution rs1 dimn item = contribution rs2 dimn item"
  shows "subLoop dimn rs1 subs acc = subLoop dimn rs2 subs acc"
proof -
  have "map (contribution rs1 dimn) (items_of subs) = map (contribution rs2 dimn) (items_of subs)"
    using assms by simp
  then have "sum_list (map (contribution rs1 dimn) (items_of subs))
           = sum_list (map (contribution rs2 dimn) (items_of subs))"
    by (rule arg_cong)
  then show ?thesis by (cases acc) (simp add: subLoop_sums)
qed

lemma dimLoop_agree:
  "\<forall>(dimn, item) \<in> set (indicators m). contribution rs1 dimn item = contribution rs2 dimn item
   \<Longrightarrow> dimLoop rs1 m r = dimLoop rs2 m r"
proof (induction m arbitrary: r)
  case Nil
  show ?case by simp
next
  case (Cons p m)
  obtain dimn subs where p: "p = (dimn, subs)" by (cases p)
  from Cons.prems have here: "\<forall>item \<in> set (items_of subs). contribution rs1 dimn item = contribution rs2 dimn item"
    and rest: "\<forall>(dimn, item) \<in> set (indicators m). contribution rs1 dimn item = contribution rs2 dimn item"
    by (auto simp: p indicators_def)
  show ?case
    by (simp add: p subLoop_agree [OF here] Cons.IH [OF rest])
qed

lemma dimLoop_agree_dim:
  assumes "\<forall>subs. (d, subs) \<in> set m \<longrightarrow>
             (\<forall>item \<in> set (items_of subs). rs1 (makeKey d item) = rs2 (makeKey d item))"
    and "perDim r1 d = perDim r2 d" and "perDimDen r1 d = perDimDen r2 d"
  shows "perDim (dimLoop rs1 m r1) d = perDim (dimLoop rs2 m r2) d \<and>
         perDimDen (dimLoop rs1 m r1) d = perDimDen (dimLoop rs2 m r2) d"
  using assms
proof (induction m arbitrary: r1 r2)
  case Nil
  then show ?case by simp
next
  case (Cons p m)
  obtain dimn subs where p: "p = (dimn, subs)" by (cases p)
  have rest: "\<forall>subs. (d, subs) \<in> set m \<longrightarrow>
             (\<forall>item \<in> set (items_of subs). rs1 (makeKey d item) = rs2 (makeKey d item))"
    using Cons.prems(1) by simp
  have "dimn = d \<Longrightarrow>
      map (contribution rs1 dimn) (items_of subs) = map (contribution rs2 dimn) (items_of subs)"
    using Cons.prems(1) by (auto simp: p contribution_def rating_def)
  then have same: "dimn = d \<Longrightarrow>
      sum_list (map (contribution rs1 dimn) (items_of subs))
      = sum_list (map (contribution rs2 dimn) (items_of subs))"
    by (rule arg_cong)
  show ?case
    unfolding p dimLoop.simps subLoop_sums prod.case
    by (rule Cons.IH [OF rest]) (use Cons.prems(2,3) same in auto)
qed

lemma floor_rat_numeral_div: "\<lfloor>numeral a / numeral b :: rat\<rfloor> = numeral a div numeral b"
  using floor_divide_of_int_eq [of "numeral a" "numeral b", where ?'a = rat] by simp

lemma small_config_model: "model_of_config small_config = Some small_model"
  by (simp add: model_of_config_def small_config_def decode_model_def decode_subs_def
      decode_items_def decode_item_def ind_def small_model_def mk_item_def)

text \<open>The weights of \<open>DEFAULT_CONFIG\<close> add up to 0.45.\<close>

lemma default_config_weight_sum:
  "map_option weightSum (model_of_config DEFAULT_CONFIG) = Some (9 / 20)"
  by (simp add: model_of_config_def DEFAULT_CONFIG_def decode_model_def decode_subs_def
      decode_items_def decode_item_def ind_def weightSum_def indicators_def items_of_def weightOf_def)

section \<open>Rounding to two decimals\<close>










section \<open>All ratings at 5\<close>




section \<open>Out-of-range ratings\<close>

lemma clamped_map_contribution:
  "contribution (\<lambda>key. map_option (\<lambda>v. max 0 (min 5 v)) (rs key)) dimn i = contribution rs dimn i"
  by (cases "rs (makeKey dimn i)") (simp_all add: contribution_def rating_def clamp_def)

text \<open>
  C7. Out-of-range ratings are clamped: any rating of 0 or less gives the same result as
  0 at the same key, and any rating of 5 or more the same as 5, whatever the config and
  the other ratings; in particular -1 behaves as 0 and 6 as 5. The result on a ratings
  map is the result on the map with every rating brought into 0..5, and \<open>total\<close> adds
  for each indicator its weight times \<open>max 0 (min 5 rating) / 5\<close>. \<open>computeWeighted\<close>
  has no failing branch, so no rating makes it raise.
\<close>

theorem out_of_range_clamped:
  "(lo \<le> 0 \<longrightarrow> computeWeighted m (rs(k \<mapsto> lo)) = computeWeighted m (rs(k \<mapsto> 0)))
 \<and> (5 \<le> hi \<longrightarrow> computeWeighted m (rs(k \<mapsto> hi)) = computeWeighted m (rs(k \<mapsto> 5)))
 \<and> computeWeighted m (rs(k \<mapsto> - 1)) = computeWeighted m (rs(k \<mapsto> 0))
 \<and> computeWeighted m (rs(k \<mapsto> 6)) = computeWeighted m (rs(k \<mapsto> 5))
 \<and> computeWeighted m rs = computeWeighted m (\<lambda>key. map_option (\<lambda>v. max 0 (min 5 v)) (rs key))
 \<and> total (computeWeighted m rs)
     = (\<Sum>(dimn, i)\<leftarrow>indicators m. weightOf i * (max 0 (min 5 (rating rs (makeKey dimn i))) / 5))"
proof -
  have low: "computeWeighted m (rs(k \<mapsto> v)) = computeWeighted m (rs(k \<mapsto> 0))" if "v \<le> 0" for v
    unfolding computeWeighted_def
    by (rule dimLoop_agree) (use that in \<open>auto simp: contribution_def rating_def clamp_def\<close>)
  have high: "computeWeighted m (rs(k \<mapsto> v)) = computeWeighted m (rs(k \<mapsto> 5))" if "5 \<le> v" for v
    unfolding computeWeighted_def
    by (rule dimLoop_agree) (use that in \<open>auto simp: contribution_def rating_def clamp_def\<close>)
  have whole: "computeWeighted m rs = computeWeighted m (\<lambda>key. map_option (\<lambda>v. max 0 (min 5 v)) (rs key))"
    unfolding computeWeighted_def
    by (rule dimLoop_agree) (simp add: clamped_map_contribution split: prod.splits)
  have closed: "total (computeWeighted m rs)
     = (\<Sum>(dimn, i)\<leftarrow>indicators m. weightOf i * (max 0 (min 5 (rating rs (makeKey dimn i))) / 5))"
    by (simp add: computeWeighted_total contribution_def clamp_def)
  show ?thesis
    using low [of lo] high [of hi] low [of "- 1"] high [of 6] whole closed by simp
qed

theorem out_of_range_clamped_witness:
  "(- 3 :: rat) \<le> 0 \<and> (5 :: rat) \<le> 9
   \<and> computeWeighted small_model [''Finance::Growth'' \<mapsto> 2, ''Finance::PAR'' \<mapsto> - 3]
     = computeWeighted small_model [''Finance::Growth'' \<mapsto> 2, ''Finance::PAR'' \<mapsto> 0]
   \<and> computeWeighted small_model [''Finance::Growth'' \<mapsto> 2, ''Finance::PAR'' \<mapsto> 9]
     = computeWeighted small_model [''Finance::Growth'' \<mapsto> 2, ''Finance::PAR'' \<mapsto> 5]
   \<and> total (computeWeighted small_model [''Finance::Growth'' \<mapsto> 2, ''Finance::PAR'' \<mapsto> 9]) = 0.07
   \<and> total (computeWeighted small_model [''Finance::Growth'' \<mapsto> 2, ''Finance::PAR'' \<mapsto> - 3]) = 0.02"
proof -
  have e1: "computeWeighted small_model [''Finance::Growth'' \<mapsto> 2, ''Finance::PAR'' \<mapsto> - 3]
     = computeWeighted small_model [''Finance::Growth'' \<mapsto> 2, ''Finance::PAR'' \<mapsto> 0]"
   and e2: "computeWeighted small_model [''Finance::Growth'' \<mapsto> 2, ''Finance::PAR'' \<mapsto> 9]
     = computeWeighted small_model [''Finance::Growth'' \<mapsto> 2, ''Finance::PAR'' \<mapsto> 5]"
    using out_of_range_clamped [of "- 3" small_model "[''Finance::Growth'' \<mapsto> 2]" "''Finance::PAR''" 9]
    by simp_all
  have "total (computeWeighted small_model [''Finance::Growth'' \<mapsto> 2, ''Finance::PAR'' \<mapsto> 9])
      = (\<Sum>(dimn, i)\<leftarrow>indicators small_model. weightOf i *
           (max 0 (min 5 (rating [''Finance::Growth'' \<mapsto> 2, ''Finance::PAR'' \<mapsto> 9] (makeKey dimn i))) / 5))"
    using out_of_range_clamped [of 0 small_model "[''Finance::Growth'' \<mapsto> 2, ''Finance::PAR'' \<mapsto> 9]" "''x''" 5]
    by blast
  then have t1: "total (computeWeighted small_model [''Finance::Growth'' \<mapsto> 2, ''Finance::PAR'' \<mapsto> 9]) = 0.07"
    by (simp add: small_model_def indicators_def items_of_def mk_item_def makeKey_def rating_def weightOf_def)
  have "total (computeWeighted small_model [''Finance::Growth'' \<mapsto> 2, ''Finance::PAR'' \<mapsto> - 3])
      = (\<Sum>(dimn, i)\<leftarrow>indicators small_model. weightOf i *
           (max 0 (min 5 (rating [''Finance::Growth'' \<mapsto> 2, ''Finance::PAR'' \<mapsto> - 3] (makeKey dimn i))) / 5))"
    using out_of_range_clamped [of 0 small_model "[''Finance::Growth'' \<mapsto> 2, ''Finance::PAR'' \<mapsto> - 3]" "''x''" 5]
    by blast
  then have t2: "total (computeWeighted small_model [''Finance::Growth'' \<mapsto> 2, ''Finance::PAR'' \<mapsto> - 3]) = 0.02"
    by (simp add: small_model_def indicators_def items_of_def mk_item_def makeKey_def rating_def weightOf_def)
  show ?thesis
    by (intro conjI e1 e2 t1 t2) simp_all
qed

section \<open>Dimensions do not see each other's ratings\<close>

text \<open>
  C5. When two ratings maps agree at the key of every indicator of a dimension, that
  dimension has the same sum, the same weight denominator and the same radar percentage
  in both results.
\<close>

theorem perDim_independent:
  assumes "\<forall>subs. (d, subs) \<in> set m \<longrightarrow>
             (\<forall>item \<in> set (items_of subs). rs1 (makeKey d item) = rs2 (makeKey d item))"
  shows "perDim (computeWeighted m rs1) d = perDim (computeWeighted m rs2) d
       \<and> perDimDen (computeWeighted m rs1) d = perDimDen (computeWeighted m rs2) d
       \<and> radarScore (perDim (computeWeighted m rs1)) (perDimDen (computeWeighted m rs1)) d
         = radarScore (perDim (computeWeighted m rs2)) (perDimDen (computeWeighted m rs2)) d"
proof -
  have "perDim (computeWeighted m rs1) d = perDim (computeWeighted m rs2) d
       \<and> perDimDen (computeWeighted m rs1) d = perDimDen (computeWeighted m rs2) d"
    unfolding computeWeighted_def by (rule dimLoop_agree_dim [OF assms]) simp_all
  then have sum: "perDim (computeWeighted m rs1) d = perDim (computeWeighted m rs2) d"
    and den: "perDimDen (computeWeighted m rs1) d = perDimDen (computeWeighted m rs2) d"
    by simp_all
  show ?thesis unfolding radarScore_def sum den by simp
qed

theorem perDim_independent_witness:
  "[''Governance::Diversity'' \<mapsto> 3] (makeKey ''Governance'' (mk_item ''Diversity'' 0.01))
     = [''Governance::Diversity'' \<mapsto> 3, ''Finance::PAR'' \<mapsto> 5] (makeKey ''Governance'' (mk_item ''Diversity'' 0.01))
   \<and> perDim (computeWeighted small_model [''Governance::Diversity'' \<mapsto> 3]) ''Governance''
     = perDim (computeWeighted small_model [''Governance::Diversity'' \<mapsto> 3, ''Finance::PAR'' \<mapsto> 5]) ''Governance''
   \<and> perDimDen (computeWeighted small_model [''Governance::Diversity'' \<mapsto> 3]) ''Governance''
     = perDimDen (computeWeighted small_model [''Governance::Diversity'' \<mapsto> 3, ''Finance::PAR'' \<mapsto> 5]) ''Governance''
   \<and> total (computeWeighted small_model [''Governance::Diversity'' \<mapsto> 3])
     \<noteq> total (computeWeighted small_model [''Governance::Diversity'' \<mapsto> 3, ''Finance::PAR'' \<mapsto> 5])"
  using perDim_independent [of "''Governance''" small_model "[''Governance::Diversity'' \<mapsto> 3]"
      "[''Governance::Diversity'' \<mapsto> 3, ''Finance::PAR'' \<mapsto> 5]"]
  by (simp add: small_model_def items_of_def mk_item_def makeKey_def computeWeighted_total
      indicators_def contribution_def rating_def weightOf_def clamp_def)

text \<open>
  Agreement is agreement at keys. The keys of two dimensions can coincide when a name
  contains the separator, and then the two indicators are one ratings entry.
\<close>

lemma makeKey_collision_example:
  "makeKey ''A'' (mk_item ''B::C'' w) = makeKey ''A::B'' (mk_item ''C'' w')"
  by (simp add: makeKey_def mk_item_def)

section \<open>A dimension of zero weight\<close>

lemma nonneg_weights_zero:
  assumes "\<forall>i \<in> set xs. 0 \<le> weightOf i" and "(\<Sum>i\<leftarrow>xs. weightOf i) = 0"
  shows "\<forall>i \<in> set xs. weightOf i = 0"
proof -
  have "\<forall>x \<in> set (map weightOf xs). x = 0"
    using assms by (subst sum_list_nonneg_eq_0_iff [symmetric]) auto
  then show ?thesis by simp
qed

lemma indicators_member:
  "(d, subs) \<in> set m \<Longrightarrow> i \<in> set (items_of subs) \<Longrightarrow> (d, i) \<in> set (indicators m)"
  by (force simp: indicators_def)

text \<open>
  C8. In a config whose weights are not negative (the invariant of the data model), for
  a dimension whose weights sum to zero the denominator that \<open>computeWeighted\<close> reports
  is 1, not 0; the radar percentage is the dimension's sum divided by 1, times 100,
  clamped, so nothing is divided by zero; and that percentage is the dimension's raw
  contribution sum.
\<close>

theorem zero_weight_denominator:
  assumes "distinct (map fst m)" and "(d, subs) \<in> set m"
    and "\<forall>(dimn, i) \<in> set (indicators m). 0 \<le> weightOf i"
    and "(\<Sum>i\<leftarrow>items_of subs. weightOf i) = 0"
  shows "perDimDen (computeWeighted m rs) d = Some 1
       \<and> perDim (computeWeighted m rs) d = Some (\<Sum>i\<leftarrow>items_of subs. contribution rs d i)
       \<and> radarScore (perDim (computeWeighted m rs)) (perDimDen (computeWeighted m rs)) d
           = Some (clamp ((\<Sum>i\<leftarrow>items_of subs. contribution rs d i) / 1 * 100) 0 100)
       \<and> radarScore (perDim (computeWeighted m rs)) (perDimDen (computeWeighted m rs)) d
           = perDim (computeWeighted m rs) d"
proof -
  have den: "perDimDen (computeWeighted m rs) d = Some 1"
    using assms(1,2,4) by (simp add: computeWeighted_perDimDen)
  have sum: "perDim (computeWeighted m rs) d = Some (\<Sum>i\<leftarrow>items_of subs. contribution rs d i)"
    using assms(1,2) by (simp add: computeWeighted_perDim)
  have radar: "radarScore (perDim (computeWeighted m rs)) (perDimDen (computeWeighted m rs)) d
           = Some (clamp ((\<Sum>i\<leftarrow>items_of subs. contribution rs d i) / 1 * 100) 0 100)"
    by (simp add: radarScore_def den sum)
  have nonneg: "\<forall>i \<in> set (items_of subs). 0 \<le> weightOf i"
    using assms(2,3) indicators_member by fastforce
  have "\<forall>i \<in> set (items_of subs). weightOf i = 0"
    using nonneg assms(4) by (rule nonneg_weights_zero)
  then have "map (contribution rs d) (items_of subs) = map (\<lambda>i. 0) (items_of subs)"
    by (simp add: contribution_def)
  then have "sum_list (map (contribution rs d) (items_of subs)) = sum_list (map (\<lambda>i. 0) (items_of subs))"
    by (rule arg_cong)
  then have zero: "(\<Sum>i\<leftarrow>items_of subs. contribution rs d i) = 0" by simp
  show ?thesis
    using den sum radar zero by (simp add: clamp_def)
qed

theorem zero_weight_denominator_witness:
  "distinct (map fst zero_model)
   \<and> (''Idle'', [(''Unused'', [mk_item ''a'' 0, mk_item ''b'' 0])]) \<in> set zero_model
   \<and> 0 \<le> weightOf (mk_item ''a'' 0) \<and> 0 \<le> weightOf (mk_item ''b'' 0)
   \<and> 0 \<le> weightOf (mk_item ''Diversity'' 0.01)
   \<and> (\<Sum>i\<leftarrow>items_of [(''Unused'', [mk_item ''a'' 0, mk_item ''b'' 0])]. weightOf i) = 0
   \<and> perDimDen (computeWeighted zero_model [''Idle::a'' \<mapsto> 4]) ''Idle'' = Some 1
   \<and> perDim (computeWeighted zero_model [''Idle::a'' \<mapsto> 4]) ''Idle'' = Some 0
   \<and> radarScore (perDim (computeWeighted zero_model [''Idle::a'' \<mapsto> 4]))
        (perDimDen (computeWeighted zero_model [''Idle::a'' \<mapsto> 4])) ''Idle'' = Some 0"
  using zero_weight_denominator [of zero_model "''Idle''" "[(''Unused'', [mk_item ''a'' 0, mk_item ''b'' 0])]" "[''Idle::a'' \<mapsto> 4]"]
  by (simp add: zero_model_def indicators_def items_of_def mk_item_def weightOf_def contribution_def clamp_def)

section \<open>Rating keys ignore the subcategory\<close>

text \<open>
  C10. The key of an indicator is made of its dimension and its \<open>kpi\<close> only. When two
  indicators in different subcategories of one dimension have the same \<open>kpi\<close>, their keys
  are equal, so both read the same ratings entry; both are among the indicators summed,
  and \<open>total\<close> and the dimension's sum add, for each indicator, its own weight times
  the clamped rating at its key over 5.
\<close>

theorem shared_kpi_key:
  assumes "distinct (map fst m)" and "(d, subs) \<in> set m"
    and "(s1, arr1) \<in> set subs" and "(s2, arr2) \<in> set subs" and "s1 \<noteq> s2"
    and "i1 \<in> set arr1" and "i2 \<in> set arr2" and "kpi i1 = kpi i2"
  shows "makeKey d i1 = makeKey d i2
       \<and> (d, i1) \<in> set (indicators m) \<and> (d, i2) \<in> set (indicators m)
       \<and> total (computeWeighted m rs)
           = (\<Sum>(dimn, i)\<leftarrow>indicators m. weightOf i * (clamp (rating rs (makeKey dimn i)) 0 5 / 5))
       \<and> perDim (computeWeighted m rs) d
           = Some (\<Sum>i\<leftarrow>items_of subs. weightOf i * (clamp (rating rs (makeKey d i)) 0 5 / 5))"
proof -
  have "i1 \<in> set (items_of subs)" "i2 \<in> set (items_of subs)"
    using assms(3,4,6,7) by (force simp: items_of_def)+
  then have "(d, i1) \<in> set (indicators m)" "(d, i2) \<in> set (indicators m)"
    using assms(2) by (force simp: indicators_def)+
  moreover have "makeKey d i1 = makeKey d i2"
    using assms(8) by (simp add: makeKey_def)
  moreover have "total (computeWeighted m rs)
           = (\<Sum>(dimn, i)\<leftarrow>indicators m. weightOf i * (clamp (rating rs (makeKey dimn i)) 0 5 / 5))"
    by (simp add: computeWeighted_total contribution_def)
  moreover have "perDim (computeWeighted m rs) d
           = Some (\<Sum>i\<leftarrow>items_of subs. weightOf i * (clamp (rating rs (makeKey d i)) 0 5 / 5))"
    using assms(1,2) by (simp add: computeWeighted_perDim contribution_def)
  ultimately show ?thesis by simp
qed

theorem shared_kpi_key_witness:
  "distinct (map fst small_model)
   \<and> (''Finance'', [(''Credit'', [mk_item ''PAR'' 0.05, mk_item ''Growth'' 0.03]),
                     (''Market'', [mk_item ''Growth'' 0.02])]) \<in> set small_model
   \<and> ''Credit'' \<noteq> ''Market''
   \<and> kpi (mk_item ''Growth'' 0.03) = kpi (mk_item ''Growth'' 0.02)
   \<and> makeKey ''Finance'' (mk_item ''Growth'' 0.03) = makeKey ''Finance'' (mk_item ''Growth'' 0.02)
   \<and> total (computeWeighted small_model [''Finance::Growth'' \<mapsto> 5]) = 0.03 + 0.02
   \<and> perDim (computeWeighted small_model [''Finance::Growth'' \<mapsto> 5]) ''Finance'' = Some (0.03 + 0.02)"
  using shared_kpi_key [of small_model "''Finance''"
      "[(''Credit'', [mk_item ''PAR'' 0.05, mk_item ''Growth'' 0.03]), (''Market'', [mk_item ''Growth'' 0.02])]"
      "''Credit''" "[mk_item ''PAR'' 0.05, mk_item ''Growth'' 0.03]"
      "''Market''" "[mk_item ''Growth'' 0.02]"
      "mk_item ''Growth'' 0.03" "mk_item ''Growth'' 0.02" "[''Finance::Growth'' \<mapsto> 5]"]
  by (simp add: small_model_def items_of_def indicators_def mk_item_def makeKey_def rating_def
      weightOf_def clamp_def)

section \<open>Export\<close>

lemma render_cells:
  assumes "case prev of None \<Rightarrow> True | Some h \<Rightarrow> consistent h"
    and "model_of_config (config st) = Some m"
  shows "render st prev =
     Some \<lparr>memo_weighted = ((config st, scores st), computeWeighted m (scores st)),
          memo_totalPct = (total (computeWeighted m (scores st)), totalPct (total (computeWeighted m (scores st)))),
          memo_finalGrade = ((totalPct (total (computeWeighted m (scores st))), bands st),
                             gradeFromScore (totalPct (total (computeWeighted m (scores st)))) (bands st)),
          memo_radarData = ((config st, perDim (computeWeighted m (scores st)), perDimDen (computeWeighted m (scores st))),
                            radarData m (perDim (computeWeighted m (scores st))) (perDimDen (computeWeighted m (scores st))))\<rparr>"
proof (cases prev)
  case None
  then show ?thesis using assms(2) by (simp add: render_def useMemo_def Let_def)
next
  case (Some h)
  then have c: "consistent h" using assms(1) by simp
  obtain c1 r1 w1 where w: "memo_weighted h = ((c1, r1), w1)" by (metis prod.exhaust)
  obtain t2 p2 where t: "memo_totalPct h = (t2, p2)" by (metis prod.exhaust)
  obtain p3 b3 g3 where g: "memo_finalGrade h = ((p3, b3), g3)" by (metis prod.exhaust)
  obtain c4 pd4 pn4 rd4 where r: "memo_radarData h = ((c4, pd4, pn4), rd4)" by (metis prod.exhaust)
  from c w have w1: "c1 = config st \<Longrightarrow> r1 = scores st \<Longrightarrow> w1 = computeWeighted m (scores st)"
    using assms(2) by (auto simp: consistent_def split: option.splits)
  from c t have p2: "p2 = totalPct t2" by (simp add: consistent_def)
  from c g have g3: "g3 = gradeFromScore p3 b3" by (simp add: consistent_def)
  from c r have rd4: "c4 = config st \<Longrightarrow> rd4 = radarData m pd4 pn4"
    using assms(2) by (auto simp: consistent_def split: option.splits)
  have mw: "useMemo (Some (memo_weighted h)) (config st, scores st) (computeWeighted m (scores st))
          = ((config st, scores st), computeWeighted m (scores st))"
    using w1 by (auto simp: useMemo_def w)
  have mt: "useMemo (Some (memo_totalPct h)) t' (totalPct t') = (t', totalPct t')" for t'
    using p2 by (auto simp: useMemo_def t)
  have mg: "useMemo (Some (memo_finalGrade h)) (p', b') (gradeFromScore p' b') = ((p', b'), gradeFromScore p' b')" for p' b'
    using g3 by (auto simp: useMemo_def g)
  have mr: "useMemo (Some (memo_radarData h)) (config st, pd', pn') (radarData m pd' pn')
          = ((config st, pd', pn'), radarData m pd' pn')" for pd' pn'
    using rd4 by (auto simp: useMemo_def r)
  show ?thesis
    using assms(2) by (simp add: render_def Some Let_def mw mt mg mr)
qed

lemma render_consistent:
  assumes "case prev of None \<Rightarrow> True | Some h \<Rightarrow> consistent h"
    and "render st prev = Some h'"
  shows "consistent h'"
proof -
  obtain m where m: "model_of_config (config st) = Some m"
    using assms(2) by (auto simp: render_def split: option.splits)
  from render_cells [OF assms(1) m] assms(2) show ?thesis
    by (auto simp: consistent_def m)
qed

lemma renders_consistent:
  assumes "case prev of None \<Rightarrow> True | Some h \<Rightarrow> consistent h"
    and "\<forall>s \<in> set sts. model_of_config (config s) \<noteq> None"
  shows "case renders prev sts of None \<Rightarrow> prev = None | Some h \<Rightarrow> consistent h"
  using assms
proof (induction sts arbitrary: prev)
  case Nil
  then show ?case by (simp split: option.splits)
next
  case (Cons s sts)
  from Cons.prems(2) obtain m where m: "model_of_config (config s) = Some m" by auto
  from render_cells [OF Cons.prems(1) m] obtain h where h: "render s prev = Some h" by simp
  have "consistent h" using Cons.prems(1) h by (rule render_consistent)
  then have "case renders (Some h) sts of None \<Rightarrow> Some h = None | Some h' \<Rightarrow> consistent h'"
    using Cons.prems(2) by (intro Cons.IH) simp_all
  then show ?case by (simp add: h split: option.splits)
qed

lemma renders_snoc:
  assumes "case prev of None \<Rightarrow> True | Some h \<Rightarrow> consistent h"
    and "\<forall>s \<in> set sts. model_of_config (config s) \<noteq> None"
  shows "renders prev (sts @ [st]) = render st (renders prev sts)"
  using assms
proof (induction sts arbitrary: prev)
  case Nil
  show ?case by (simp split: option.splits)
next
  case (Cons s sts)
  from Cons.prems(2) obtain m where m: "model_of_config (config s) = Some m" by auto
  from render_cells [OF Cons.prems(1) m] obtain h where h: "render s prev = Some h" by simp
  have "consistent h" using Cons.prems(1) h by (rule render_consistent)
  then have "renders (Some h) (sts @ [st]) = render st (renders (Some h) sts)"
    using Cons.prems(2) by (intro Cons.IH) simp_all
  then show ?case by (simp add: h)
qed

text \<open>
  C2. In a session that went through any states whose configs can be traversed, the
  render of the current state succeeds, and the snapshot that \<open>handleDownloadScores\<close>
  builds from its memo cells holds the current ratings, the \<open>totalPct\<close> derived from a
  fresh \<open>computeWeighted\<close> on the current config and ratings, and the grade that
  \<open>gradeFromScore\<close> gives for it on the current bands; the state that the handler
  leaves is the state it found.
\<close>

theorem export_matches_fresh:
  assumes "\<forall>s \<in> set (sts @ [st]). model_of_config (config s) \<noteq> None"
  shows "\<exists>h m. renders None (sts @ [st]) = Some h \<and> model_of_config (config st) = Some m
       \<and> handleDownloadScores st h =
           (st, \<lparr>scores_x = scores st,
                  totalPct_x = totalPct (total (computeWeighted m (scores st))),
                  finalGrade_x = gradeFromScore (totalPct (total (computeWeighted m (scores st)))) (bands st)\<rparr>)"
proof -
  from assms obtain m where m: "model_of_config (config st) = Some m" by auto
  from assms have sts: "\<forall>s \<in> set sts. model_of_config (config s) \<noteq> None" by simp
  have start: "case None of None \<Rightarrow> True | Some h \<Rightarrow> consistent h" by simp
  from renders_consistent [OF start sts] have prev: "case renders None sts of None \<Rightarrow> True | Some h \<Rightarrow> consistent h"
    by (simp split: option.splits)
  have "renders None (sts @ [st]) = render st (renders None sts)"
    using start sts by (rule renders_snoc)
  then show ?thesis
    by (simp add: render_cells [OF prev m] m handleDownloadScores_def)
qed

theorem export_matches_fresh_witness:
  "model_of_config (config small_state) \<noteq> None
   \<and> model_of_config (config rated_state) \<noteq> None
   \<and> (\<exists>h. renders None ([small_state] @ [rated_state]) = Some h
          \<and> handleDownloadScores rated_state h
              = (rated_state, \<lparr>scores_x = [''Finance::Growth'' \<mapsto> 5], totalPct_x = 5, finalGrade_x = ''E''\<rparr>))"
proof -
  have m: "model_of_config (config rated_state) = Some small_model"
    by (simp add: rated_state_def handleScore_def small_state_def small_config_model)
  have m0: "model_of_config (config small_state) = Some small_model"
    by (simp add: small_state_def small_config_model)
  have t: "total (computeWeighted small_model [''Finance::Growth'' \<mapsto> 5]) = 1 / 20"
    by (simp add: computeWeighted_total indicators_def items_of_def small_model_def mk_item_def
        contribution_def makeKey_def rating_def weightOf_def clamp_def)
  have p: "totalPct (1 / 20) = 5"
    by (simp add: totalPct_def toFixed2_def floor_rat_numeral_div clamp_def)
  have g: "gradeFromScore 5 (bands rated_state) = ''E''"
    by (simp add: gradeFromScore_def rated_state_def handleScore_def small_state_def default_bands_def)
  have s: "scores rated_state = [''Finance::Growth'' \<mapsto> 5]"
    by (simp add: rated_state_def handleScore_def small_state_def clamp_def)
  have "\<forall>s \<in> set ([small_state] @ [rated_state]). model_of_config (config s) \<noteq> None"
    using m m0 by simp
  from export_matches_fresh [OF this] m m0 show ?thesis
    by (auto simp: t p g s)
qed

section \<open>Config replacement\<close>

text \<open>
  C3. An upload either adopts the whole parsed document as the config (and empties the
  ratings), or raises an alert and leaves the state as it was. A text that does not parse
  and a document without a \<open>model\<close> property end in the second case.
\<close>

theorem handleUpload_atomic:
  "((\<exists>txt doc. file = Inr txt \<and> parse txt = Inr doc
        \<and> handleUpload parse (Some file) st = (st\<lparr>config := doc, scores := Map.empty\<rparr>, None))
     \<or> (\<exists>e. handleUpload parse (Some file) st = (st, Some e)))
   \<and> (parse txta = Inl msg \<longrightarrow> handleUpload parse (Some (Inr txta)) st = (st, Some (ParseFailed msg)))
   \<and> (parse txtb = Inr docb \<and> lacks_model docb \<longrightarrow>
         (\<exists>e. handleUpload parse (Some (Inr txtb)) st = (st, Some e)))"
  by (auto simp: handleUpload_def lacks_model_def split: sum.splits json.splits option.splits)

theorem handleUpload_atomic_witness:
  "parse_stub ''junk'' = Inl ''Unexpected token''
   \<and> handleUpload parse_stub (Some (Inr ''junk'')) default_rated
       = (default_rated, Some (ParseFailed ''Unexpected token''))
   \<and> parse_stub ''{}'' = Inr (JObj []) \<and> lacks_model (JObj [])
   \<and> handleUpload parse_stub (Some (Inr ''{}'')) default_rated = (default_rated, Some MissingModel)"
  using handleUpload_atomic
    [of "Inr ''{}''" parse_stub default_rated "''junk''" "''Unexpected token''" "''{}''" "JObj []"]
  by (simp add: parse_stub_def lacks_model_def handleUpload_def)

text \<open>
  C6. A document that parses and passes the check on its \<open>model\<close> replaces the config and
  the ratings become the empty map; after any upload that ends without an alert the
  ratings are empty, so the rating read at the key of any indicator is 0.
\<close>

theorem handleUpload_clears_ratings:
  "(parse txt = Inr doc \<and> passes_check doc \<longrightarrow>
      handleUpload parse (Some (Inr txt)) st = (st\<lparr>config := doc, scores := Map.empty\<rparr>, None))
   \<and> (handleUpload parse (Some file) st = (st', None) \<longrightarrow>
        scores st' = Map.empty \<and> (\<forall>dimn i. rating (scores st') (makeKey dimn i) = 0))"
  by (auto simp: handleUpload_def passes_check_def rating_def split: sum.splits json.splits option.splits if_splits)

theorem handleUpload_clears_ratings_witness:
  "parse_stub ''small'' = Inr small_config \<and> passes_check small_config
   \<and> handleUpload parse_stub (Some (Inr ''small'')) default_rated
       = (default_rated\<lparr>config := small_config, scores := Map.empty\<rparr>, None)
   \<and> scores default_rated \<noteq> Map.empty
   \<and> scores (default_rated\<lparr>config := small_config, scores := Map.empty\<rparr>) = Map.empty
   \<and> rating (scores (default_rated\<lparr>config := small_config, scores := Map.empty\<rparr>))
        (makeKey ''Finance'' (mk_item ''Growth'' 0.03)) = 0"
  using handleUpload_clears_ratings
    [of parse_stub "''small''" small_config default_rated "Inr ''small''"
      "default_rated\<lparr>config := small_config, scores := Map.empty\<rparr>"]
  by (simp add: parse_stub_def passes_check_def small_config_def handleUpload_def rating_def
      default_rated_def handleScore_def)

end
